theory Spec2Isabelle
  imports Complex_Main "HOL-Library.Word"
begin

section \<open>The mixing endpoint: data model\<close>

text \<open>
  The handler of the mixing endpoint is an async JavaScript function that talks to the
  file system, to the multipart parser, to the external media processor and to the HTTP
  response. The model threads one \<open>run\<close> record through the handler: the response built
  so far, the files on disk, the two \<open>let\<close> variables \<open>voiceFilePath\<close> and
  \<open>mixedFilePath\<close>, and the list of calls made to the outside (the trace). Everything the
  outside decides (whether \<open>mkdir\<close> fails, what the media processor answers, how the
  read stream ends) is read from an \<open>env\<close> record, so that a statement about every
  \<open>env\<close> is a statement about every execution.
\<close>

type_synonym path = string
type_synonym bytes = "8 word list"
type_synonym fs = "path \<rightharpoonup> bytes"

datatype js_error = JsError (err_code: string) (err_message: string)

text \<open>The result of reading a property of the object literal \<open>MUSIC_FILES\<close>: a path
  string for an own key, \<open>undefined\<close> for a name that is nowhere on the prototype chain,
  and a non-string, truthy value (a function or \<open>Object.prototype\<close> itself) for a name
  that the literal inherits from \<open>Object.prototype\<close>.\<close>

datatype jsval = Undefined | Str string | Inherited

definition object_prototype_keys :: "string list" where
  "object_prototype_keys =
     [''constructor'', ''__defineGetter__'', ''__defineSetter__'', ''hasOwnProperty'',
      ''__lookupGetter__'', ''__lookupSetter__'', ''isPrototypeOf'',
      ''propertyIsEnumerable'', ''toString'', ''valueOf'', ''__proto__'',
      ''toLocaleString'']"

text \<open>\<open>path.join\<close> on segments that need no normalisation.\<close>

fun path_join :: "string list \<Rightarrow> path" where
  "path_join [] = ''.''"
| "path_join [p] = p"
| "path_join (p # q # ps) = p @ ''/'' @ path_join (q # ps)"

definition MUSIC_FILES :: "path \<Rightarrow> string \<Rightarrow> jsval" where
  "MUSIC_FILES cwd key =
     (if key = ''ambient''
        then Str (path_join [cwd, ''public'', ''audio'', ''ambient_background.mp3''])
      else if key = ''orchestral''
        then Str (path_join [cwd, ''public'', ''audio'', ''orchestral_background.mp3''])
      else if key \<in> set object_prototype_keys then Inherited
      else Undefined)"

record upload =
  filepath :: path

text \<open>A request as the handler sees it: the HTTP method and what \<open>form.parse\<close> calls
  back with, an error or the parsed fields and files (each name maps to an array).\<close>

record request =
  req_method :: string
  form :: "js_error + ((string \<rightharpoonup> string list) \<times> (string \<rightharpoonup> upload list))"

datatype hval = HStr string | HNum nat

datatype body = NoBody | Json string | Audio bytes

record response =
  statusCode :: nat
  headers :: "string \<rightharpoonup> hval"
  body :: body
  headersSent :: bool
  finished :: bool

record ffmpeg_cmd =
  inputs :: "path list"
  complexFilter :: "string list"
  outputOptions :: "string list"
  save_to :: path

text \<open>What the media processor reports: \<open>end\<close>, with the bytes it wrote to the output
  path, or \<open>error\<close> with its message, perhaps leaving a partial output file behind.\<close>

datatype ffmpeg_result = MixEnd bytes | MixError string "bytes option"

text \<open>The calls the handler makes, in the order it makes them. \<open>EvError\<close> and
  \<open>EvWarn\<close> are \<open>console.error\<close> and \<open>console.warn\<close>, with the fixed part of the
  logged line.\<close>

datatype event =
    EvAccess jsval
  | EvMkdir path
  | EvRename path path
  | EvFfmpeg ffmpeg_cmd ffmpeg_result
  | EvStat path
  | EvReadStream path
  | EvUnlink path
  | EvError string
  | EvWarn string

text \<open>How the read stream piped into the response ends: it emits \<open>end\<close>; it emits
  \<open>error\<close> after some bytes; or it emits neither (the two events are the only ones the
  handler listens for), after some bytes.\<close>

datatype stream_outcome = StreamEnd | StreamError nat | StreamStalled nat

text \<open>What the outside decides in one execution. \<open>stamp\<close> and \<open>token\<close> are the
  renderings of \<open>Date.now()\<close> and of the random suffix in the two scratch names;
  \<open>rename_error\<close> is an error of \<open>rename\<close> other than a missing source (a move across
  devices, say); \<open>unlink_error\<close> is asked at every deletion of a file that exists.\<close>

record env =
  cwd :: path
  mkdir_error :: "js_error option"
  stamp_voice :: string
  token_voice :: string
  stamp_mix :: string
  token_mix :: string
  rename_error :: "js_error option"
  ffmpeg :: "ffmpeg_cmd \<Rightarrow> fs \<Rightarrow> ffmpeg_result"
  stream :: stream_outcome
  unlink_error :: "nat \<Rightarrow> path \<Rightarrow> js_error option"

text \<open>\<open>returned\<close> says whether the promise of the handler has resolved.\<close>

record run =
  res :: response
  disk :: fs
  trace :: "event list"
  voiceFilePath :: path
  mixedFilePath :: path
  returned :: bool

text \<open>How a block of the handler ends: normally, by throwing, or never (the awaited
  promise stays pending); and what the \<open>catch\<close> clause leaves of that.\<close>

datatype outcome = Done run | Threw js_error run | Stalled run

datatype settled = Resolved run | Pending run

section \<open>The mixing endpoint: operations\<close>

definition res0 :: response where
  "res0 = \<lparr>statusCode = 200, headers = Map.empty, body = NoBody,
            headersSent = False, finished = False\<rparr>"

definition init :: "fs \<Rightarrow> run" where
  "init d = \<lparr>res = res0, disk = d, trace = [], voiceFilePath = [], mixedFilePath = [],
             returned = False\<rparr>"

text \<open>\<open>res.status(c).json({ error: m })\<close>.\<close>

definition json_error :: "nat \<Rightarrow> string \<Rightarrow> response \<Rightarrow> response" where
  "json_error c m r = r\<lparr>statusCode := c, body := Json m, headersSent := True, finished := True\<rparr>"

definition respond :: "nat \<Rightarrow> string \<Rightarrow> run \<Rightarrow> run" where
  "respond c m s = s\<lparr>res := json_error c m (res s)\<rparr>"

definition emit :: "event \<Rightarrow> run \<Rightarrow> run" where
  "emit e s = s\<lparr>trace := trace s @ [e]\<rparr>"

text \<open>\<open>xs?.[0]\<close> on what is \<open>undefined\<close> or an array.\<close>

definition first_of :: "'a list option \<Rightarrow> 'a option" where
  "first_of v = (case v of None \<Rightarrow> None | Some [] \<Rightarrow> None | Some (x # _) \<Rightarrow> Some x)"

definition enoent :: "string \<Rightarrow> path \<Rightarrow> js_error" where
  "enoent syscall p =
     JsError ''ENOENT'' (''ENOENT: no such file or directory, '' @ syscall @ '' '' @ p)"

text \<open>\<open>fs.access(v)\<close>: a value that is not a string is rejected with a type error, a
  path with no file behind it with \<open>ENOENT\<close>; \<open>Inr\<close> is success, with the path that
  was checked.\<close>

definition fs_access :: "jsval \<Rightarrow> fs \<Rightarrow> js_error + path" where
  "fs_access v d =
     (case v of
        Str p \<Rightarrow> (if d p = None then Inl (enoent ''access'' p) else Inr p)
      | _ \<Rightarrow> Inl (JsError ''ERR_INVALID_ARG_TYPE''
                 ''The \"path\" argument must be of type string or an instance of Buffer or URL.''))"

definition fs_rename :: "env \<Rightarrow> path \<Rightarrow> path \<Rightarrow> fs \<Rightarrow> js_error + fs" where
  "fs_rename e src dst d =
     (case d src of
        None \<Rightarrow> Inl (enoent ''rename'' src)
      | Some content \<Rightarrow>
          (case rename_error e of
             Some err \<Rightarrow> Inl err
           | None \<Rightarrow> Inr ((d(src := None))(dst \<mapsto> content))))"

text \<open>\<open>fs.unlink(p)\<close> at step \<open>t\<close> of the run: \<open>ENOENT\<close> when nothing is at \<open>p\<close>
  (the empty path included), otherwise whatever the system decides at that moment.\<close>

definition fs_unlink :: "env \<Rightarrow> nat \<Rightarrow> path \<Rightarrow> fs \<Rightarrow> js_error option \<times> fs" where
  "fs_unlink e t p d =
     (if p = [] \<or> d p = None then (Some (enoent ''unlink'' p), d)
      else (case unlink_error e t p of
              Some err \<Rightarrow> (Some err, d)
            | None \<Rightarrow> (None, d(p := None))))"

text \<open>\<open>fs.unlink(p).catch(e => e.code !== 'ENOENT' && console.warn(label + e.message))\<close>\<close>

definition unlink_quietly :: "env \<Rightarrow> string \<Rightarrow> path \<Rightarrow> run \<Rightarrow> run" where
  "unlink_quietly e label p s =
     (case fs_unlink e (length (trace s)) p (disk s) of
        (None, d) \<Rightarrow> s\<lparr>disk := d, trace := trace s @ [EvUnlink p]\<rparr>
      | (Some err, d) \<Rightarrow>
          (if err_code err \<noteq> ''ENOENT''
           then s\<lparr>disk := d, trace := trace s @ [EvUnlink p, EvWarn (label @ err_message err)]\<rparr>
           else s\<lparr>disk := d, trace := trace s @ [EvUnlink p]\<rparr>))"

definition audio_headers :: "nat \<Rightarrow> response \<Rightarrow> response" where
  "audio_headers n r =
     r\<lparr>headers := (headers r)(''Content-Type'' \<mapsto> HStr ''audio/mpeg'',
                                 ''Content-Length'' \<mapsto> HNum n,
                                 ''Content-Disposition'' \<mapsto>
                                    HStr ''inline; filename=\"final_mix.mp3\"'')\<rparr>"

text \<open>Lines 130 to 156 of the handler: \<open>stat\<close>, the three headers, the read stream piped
  into the response, and the clean-up that the \<open>end\<close> event starts.\<close>

definition stream_back :: "env \<Rightarrow> run \<Rightarrow> outcome" where
  "stream_back e s =
     (let s0 = emit (EvStat (mixedFilePath s)) s in
      case disk s (mixedFilePath s) of
        None \<Rightarrow> Threw (enoent ''stat'' (mixedFilePath s)) s0
      | Some content \<Rightarrow>
          (let s1 = emit (EvReadStream (mixedFilePath s))
                      (s0\<lparr>res := audio_headers (length content) (res s0)\<rparr>) in
           case stream e of
             StreamEnd \<Rightarrow>
               Done (unlink_quietly e ''Failed to clean up mixed temp file: '' (mixedFilePath s)
                      (unlink_quietly e ''Failed to clean up voice temp file: '' (voiceFilePath s)
                        (s1\<lparr>res := (res s1)\<lparr>body := Audio content, headersSent := True,
                                               finished := True\<rparr>\<rparr>)))
           | StreamError n \<Rightarrow>
               Done (emit (EvError ''Error streaming mixed audio:'')
                      (s1\<lparr>res := (res s1)\<lparr>body := Audio (take n content),
                                             headersSent := (0 < n)\<rparr>\<rparr>))
           | StreamStalled n \<Rightarrow>
               Stalled (s1\<lparr>res := (res s1)\<lparr>body := Audio (take n content),
                                             headersSent := (0 < n)\<rparr>\<rparr>)))"

text \<open>Lines 109 to 128: the one call of the media processor.\<close>

definition mix_command :: "path \<Rightarrow> path \<Rightarrow> path \<Rightarrow> ffmpeg_cmd" where
  "mix_command voice music out =
     \<lparr>inputs = [voice, music],
      complexFilter =
        [''[1:a]volume=0.25[music_vol]'',
         ''[0:a][music_vol]amix=inputs=2:duration=first:dropout_transition=2[aout]''],
      outputOptions = [''-map [aout]'', ''-c:a libmp3lame'', ''-q:a 2''],
      save_to = out\<rparr>"

definition mix :: "env \<Rightarrow> path \<Rightarrow> run \<Rightarrow> outcome" where
  "mix e musicSourceFilePath s =
     (let cmd = mix_command (voiceFilePath s) musicSourceFilePath (mixedFilePath s);
          result = ffmpeg e cmd (disk s);
          s1 = emit (EvFfmpeg cmd result) s in
      case result of
        MixEnd out \<Rightarrow> stream_back e (s1\<lparr>disk := (disk s)(mixedFilePath s \<mapsto> out)\<rparr>)
      | MixError msg partial \<Rightarrow>
          Threw (JsError [] ''The blend was lost in the ether. Failed to weave voice and music into one tapestry.'')
            (emit (EvError (''FFmpeg error: '' @ msg))
               (s1\<lparr>disk := (case partial of None \<Rightarrow> disk s
                              | Some b \<Rightarrow> (disk s)(mixedFilePath s \<mapsto> b))\<rparr>)))"

text \<open>Lines 99 to 107: the scratch directory, the two scratch paths (built from
  \<open>Date.now()\<close> and a random token each), and the move of the upload to the first.\<close>

definition tempDir :: "env \<Rightarrow> path" where
  "tempDir e = path_join [cwd e, ''tmp'']"

definition new_voiceFilePath :: "env \<Rightarrow> path" where
  "new_voiceFilePath e =
     path_join [tempDir e, ''voice-'' @ stamp_voice e @ ''-'' @ token_voice e @ ''.mp3'']"

definition new_mixedFilePath :: "env \<Rightarrow> path" where
  "new_mixedFilePath e =
     path_join [tempDir e, ''final_mix-'' @ stamp_mix e @ ''-'' @ token_mix e @ ''.mp3'']"

definition stage_files :: "env \<Rightarrow> upload \<Rightarrow> path \<Rightarrow> run \<Rightarrow> outcome" where
  "stage_files e voiceAudioFile musicSourceFilePath s =
     (let s1 = emit (EvMkdir (tempDir e)) s in
      case mkdir_error e of
        Some err \<Rightarrow> Threw err s1
      | None \<Rightarrow>
          (let s2 = s1\<lparr>voiceFilePath := new_voiceFilePath e,
                       mixedFilePath := new_mixedFilePath e\<rparr>;
               s3 = emit (EvRename (filepath voiceAudioFile) (voiceFilePath s2)) s2 in
           case fs_rename e (filepath voiceAudioFile) (voiceFilePath s2) (disk s2) of
             Inl err \<Rightarrow> Threw err s3
           | Inr d \<Rightarrow> mix e musicSourceFilePath (s3\<lparr>disk := d\<rparr>)))"

text \<open>Lines 73 to 97: the parsed form, the two validation checks, and the check that
  the background track is there.\<close>

definition try_block :: "env \<Rightarrow> request \<Rightarrow> run \<Rightarrow> outcome" where
  "try_block e req s =
     (case form req of
        Inl err \<Rightarrow> Threw err s
      | Inr (form_fields, form_files) \<Rightarrow>
          (case first_of (form_files ''voice_audio'') of
             None \<Rightarrow> Done (respond 400 ''Voice audio file is required for mixing.'' s)
           | Some voiceAudioFile \<Rightarrow>
               (case first_of (form_fields ''musicChoice'') of
                  None \<Rightarrow> Done (respond 400 ''The harmony awaits. Please choose a background melody to accompany your verse.'' s)
                | Some musicChoice \<Rightarrow>
                    if musicChoice = [] \<or> MUSIC_FILES (cwd e) musicChoice = Undefined
                    then Done (respond 400 ''The harmony awaits. Please choose a background melody to accompany your verse.'' s)
                    else
                      (let musicSourceFilePath = MUSIC_FILES (cwd e) musicChoice;
                           s1 = emit (EvAccess musicSourceFilePath) s in
                       case fs_access musicSourceFilePath (disk s) of
                         Inl err \<Rightarrow>
                           Done (respond 500 ''The chosen melody is lost in the mists. Background music file not found on the server.''
                                  (emit (EvError ''Music file not found'') s1))
                       | Inr p \<Rightarrow> stage_files e voiceAudioFile p s1))))"

text \<open>The \<open>catch\<close> clause.\<close>

definition catch_block :: "outcome \<Rightarrow> settled" where
  "catch_block oc =
     (case oc of
        Done s \<Rightarrow> Resolved s
      | Stalled s \<Rightarrow> Pending s
      | Threw err s \<Rightarrow>
          (let s1 = emit (EvError ''API mix handler error:'') s in
           Resolved
             (if \<not> headersSent (res s1)
              then respond 500
                     (if err_message err = []
                      then ''An unexpected sorrow befell the mixing. Please try again.''
                      else err_message err) s1
              else s1)))"

text \<open>The \<open>finally\<close> clause; it is not reached while the stream promise is pending.\<close>

definition finally_block :: "env \<Rightarrow> settled \<Rightarrow> run" where
  "finally_block e st =
     (case st of
        Pending s \<Rightarrow> s
      | Resolved s \<Rightarrow>
          (unlink_quietly e ''Failed to clean up mixed temp file in finally: '' (mixedFilePath s)
             (unlink_quietly e ''Failed to clean up voice temp file in finally: '' (voiceFilePath s) s))
          \<lparr>returned := True\<rparr>)"

definition handler :: "env \<Rightarrow> request \<Rightarrow> fs \<Rightarrow> run" where
  "handler e req d =
     (if req_method req \<noteq> ''POST''
      then (respond 405 ''Method Not Allowed'' (init d))\<lparr>returned := True\<rparr>
      else finally_block e (catch_block (try_block e req (init d))))"

section \<open>The browser application: data model\<close>

text \<open>
  The state of the \<open>App\<close> component is one record: the React state variables, the
  refs, and the browser's queue of pending timers with its clock (in milliseconds). A
  state setter is a record update; a callback that React created in an earlier render
  gets the values it closed over as arguments.
\<close>

text \<open>A JavaScript string is a sequence of UTF-16 code units; \<open>length\<close> counts them.\<close>

type_synonym jsstring = "16 word list"

text \<open>A JavaScript number that arithmetic has produced: a finite value, or one of
  \<open>NaN\<close>, \<open>Infinity\<close>, \<open>-Infinity\<close>. Finite values are exact reals here: the
  rounding of IEEE doubles is not modelled.\<close>

datatype jsnum = Num real | NotFinite

fun js_div :: "jsnum \<Rightarrow> jsnum \<Rightarrow> jsnum" where
  "js_div (Num a) (Num b) = (if b = 0 then NotFinite else Num (a / b))"
| "js_div _ _ = NotFinite"

fun js_mul :: "jsnum \<Rightarrow> jsnum \<Rightarrow> jsnum" where
  "js_mul (Num a) (Num b) = Num (a * b)"
| "js_mul _ _ = NotFinite"

fun js_add :: "jsnum \<Rightarrow> jsnum \<Rightarrow> jsnum" where
  "js_add (Num a) (Num b) = Num (a + b)"
| "js_add _ _ = NotFinite"

text \<open>An \<open>AudioBuffer\<close>: its length in sample frames and its sample rate; the
  \<open>duration\<close> attribute is their quotient, in seconds.\<close>

record audio_buffer =
  frames :: nat
  sampleRate :: nat

definition duration :: "audio_buffer \<Rightarrow> real" where
  "duration b = real (frames b) / real (sampleRate b)"

text \<open>The two callbacks that \<open>playAudio\<close> hands to \<open>setTimeout\<close>; both test
  \<open>audioSourceRef.current\<close> when they run.\<close>

datatype callback = Highlight nat | ClearHighlight

record timer =
  tid :: nat
  due :: real
  action :: callback

datatype audio_kind = SpeechOnly | Mixed

text \<open>An \<open>AudioBufferSourceNode\<close> and the buffer assigned to it.\<close>

datatype source_node = SourceNode "audio_buffer option"

record app =
  generatedPoem :: jsstring
  poemLines :: "jsstring list"
  currentLineIndex :: int
  speechOnlyDecodedBuffer :: "audio_buffer option"
  speechOnlyRawMp3Buffer :: "bytes option"
  mixedDecodedBuffer :: "audio_buffer option"
  mixedRawMp3Buffer :: "bytes option"
  currentPlaybackAudioBuffer :: "audio_buffer option"
  currentDownloadMp3Buffer :: "bytes option"
  isPlaying :: bool
  loadingMessage :: string
  errorMessage :: string
  musicChoice :: string
  isMixing :: bool
  isMixedAudioPlaying :: bool
  audioContext :: bool
  audioSourceRef :: "source_node option"
  lineTimerRef :: "nat option"
  timers :: "timer list"
  nextTimerId :: nat
  clock :: real

section \<open>The browser application: operations\<close>

text \<open>\<open>String.prototype.trim\<close> strips white space and line terminators.\<close>

definition is_space :: "16 word \<Rightarrow> bool" where
  "is_space c \<longleftrightarrow>
     c \<in> set [0x9, 0xA, 0xB, 0xC, 0xD, 0x20, 0xA0, 0x1680, 0x2000, 0x2001, 0x2002, 0x2003,
              0x2004, 0x2005, 0x2006, 0x2007, 0x2008, 0x2009, 0x200A, 0x2028, 0x2029,
              0x202F, 0x205F, 0x3000, 0xFEFF]"

definition trim :: "jsstring \<Rightarrow> jsstring" where
  "trim s = rev (dropWhile is_space (rev (dropWhile is_space s)))"

text \<open>\<open>s.split(sep)\<close> for a separator of one code unit.\<close>

fun split :: "'a \<Rightarrow> 'a list \<Rightarrow> 'a list list" where
  "split sep [] = [[]]"
| "split sep (c # cs) =
     (if c = sep then [] # split sep cs
      else (case split sep cs of [] \<Rightarrow> [[c]] | piece # pieces \<Rightarrow> (c # piece) # pieces))"

text \<open>\<open>generatedPoem.split('\n').filter(line => line.trim() !== '')\<close>\<close>

definition poem_lines_of :: "jsstring \<Rightarrow> jsstring list" where
  "poem_lines_of poem = filter (\<lambda>line. trim line \<noteq> []) (split 0xA poem)"

text \<open>\<open>setTimeout(cb, delay)\<close>: a delay that is not finite counts as 0, and so does a
  negative one. The timer is due \<open>delay\<close> milliseconds after the present moment.\<close>

fun delay_ms :: "jsnum \<Rightarrow> real" where
  "delay_ms (Num x) = max 0 x"
| "delay_ms NotFinite = 0"

text \<open>\<open>lineTimerRef.current = setTimeout(cb, delay)\<close>\<close>

definition set_line_timer :: "callback \<Rightarrow> jsnum \<Rightarrow> app \<Rightarrow> app" where
  "set_line_timer cb delay s =
     s\<lparr>timers := timers s @ [\<lparr>tid = nextTimerId s, due = clock s + delay_ms delay, action = cb\<rparr>],
       lineTimerRef := Some (nextTimerId s),
       nextTimerId := Suc (nextTimerId s)\<rparr>"

definition clearTimeout :: "nat \<Rightarrow> app \<Rightarrow> app" where
  "clearTimeout i s = s\<lparr>timers := filter (\<lambda>t. tid t \<noteq> i) (timers s)\<rparr>"

definition clearLineTimers :: "app \<Rightarrow> app" where
  "clearLineTimers s =
     (case lineTimerRef s of
        None \<Rightarrow> s
      | Some i \<Rightarrow> (clearTimeout i s)\<lparr>lineTimerRef := None\<rparr>)"

definition stopAudio :: "app \<Rightarrow> app" where
  "stopAudio s =
     (let s1 = (if audioSourceRef s \<noteq> None then s\<lparr>audioSourceRef := None\<rparr> else s);
          s2 = clearLineTimers s1
      in s2\<lparr>isPlaying := False, currentLineIndex := - 1, isMixedAudioPlaying := False\<rparr>)"

text \<open>The \<open>onended\<close> handler that \<open>playAudio\<close> attaches to each source node.\<close>

definition onended :: "app \<Rightarrow> app" where
  "onended s = s\<lparr>isPlaying := False, currentLineIndex := - 1, audioSourceRef := None,
                 isMixedAudioPlaying := False\<rparr>"

definition setAudioAndSyncData ::
    "jsstring \<Rightarrow> audio_buffer \<Rightarrow> bytes \<Rightarrow> audio_kind \<Rightarrow> app \<Rightarrow> app" where
  "setAudioAndSyncData poem decodedBuffer rawMp3Buffer kind s =
     (let s1 = s\<lparr>currentPlaybackAudioBuffer := Some decodedBuffer,
                  currentDownloadMp3Buffer := Some rawMp3Buffer,
                  poemLines := poem_lines_of poem\<rparr>
      in case kind of
           SpeechOnly \<Rightarrow>
             s1\<lparr>speechOnlyDecodedBuffer := Some decodedBuffer,
                speechOnlyRawMp3Buffer := Some rawMp3Buffer,
                mixedDecodedBuffer := None, mixedRawMp3Buffer := None,
                isMixedAudioPlaying := False\<rparr>
         | Mixed \<Rightarrow>
             s1\<lparr>mixedDecodedBuffer := Some decodedBuffer,
                mixedRawMp3Buffer := Some rawMp3Buffer,
                isMixedAudioPlaying := True\<rparr>)"

text \<open>\<open>poemLines.reduce((sum, line) => sum + line.length, 0)\<close>\<close>

definition totalChars :: "jsstring list \<Rightarrow> nat" where
  "totalChars lines = foldl (\<lambda>sum line. sum + length line) 0 lines"

definition lineDurations :: "real \<Rightarrow> jsstring list \<Rightarrow> jsnum list" where
  "lineDurations totalDuration lines =
     map (\<lambda>line. js_mul (Num totalDuration)
                   (js_div (Num (real (length line))) (Num (real (totalChars lines))))) lines"

text \<open>The \<open>forEach\<close> over \<open>lineDurations\<close>, with its index and the running
  \<open>cumulativeTime\<close>.\<close>

fun schedule_lines :: "jsnum list \<Rightarrow> nat \<Rightarrow> jsnum \<Rightarrow> app \<Rightarrow> app" where
  "schedule_lines [] i cumulativeTime s = s"
| "schedule_lines (d # ds) i cumulativeTime s =
     schedule_lines ds (Suc i) (js_add cumulativeTime d)
       (set_line_timer (Highlight i) (js_mul cumulativeTime (Num 1000)) s)"

text \<open>\<open>playAudio\<close>; \<open>lines\<close> is the \<open>poemLines\<close> of the render the callback was
  created in.\<close>

definition playAudio :: "jsstring list \<Rightarrow> audio_buffer \<Rightarrow> app \<Rightarrow> app" where
  "playAudio lines buffer s =
     (if \<not> audioContext s
      then s\<lparr>errorMessage := ''Audio context not initialized. Please interact with the page first.''\<rparr>
      else
        (let s1 = stopAudio s;
             s2 = s1\<lparr>audioSourceRef := Some (SourceNode (Some buffer)), isPlaying := True\<rparr>
         in if length lines > 0
            then
              (let s3 = clearLineTimers s2;
                   totalDuration = duration buffer;
                   s4 = schedule_lines (lineDurations totalDuration lines) 0 (Num 0) s3
               in set_line_timer ClearHighlight (js_mul (Num totalDuration) (Num 1000)) s4)
            else s2\<lparr>currentLineIndex := - 1\<rparr>))"

text \<open>A timer callback runs.\<close>

fun fire :: "callback \<Rightarrow> app \<Rightarrow> app" where
  "fire (Highlight i) s = (if audioSourceRef s \<noteq> None then s\<lparr>currentLineIndex := int i\<rparr> else s)"
| "fire ClearHighlight s = (if audioSourceRef s \<noteq> None then s\<lparr>currentLineIndex := - 1\<rparr> else s)"

text \<open>Time passes until \<open>t\<close>: the timers due by then run, earliest first (and in the
  order of their creation when due together), and leave the list of pending timers.\<close>

definition advance :: "real \<Rightarrow> app \<Rightarrow> app" where
  "advance t s =
     (let ready = sort_key due (filter (\<lambda>x. due x \<le> t) (timers s));
          s1 = foldl (\<lambda>a x. fire (action x) a) s ready
      in s1\<lparr>timers := filter (\<lambda>x. \<not> due x \<le> t) (timers s), clock := max t (clock s)\<rparr>)"

text \<open>\<open>playAudio(null)\<close>, which the non-null assertion at the end of the \<open>'none'\<close> branch
  allows: with lines to highlight, reading \<open>buffer.duration\<close> throws.\<close>

definition playAudio_null :: "jsstring list \<Rightarrow> app \<Rightarrow> (string \<times> app) + app" where
  "playAudio_null lines s =
     (if \<not> audioContext s
      then Inr (s\<lparr>errorMessage := ''Audio context not initialized. Please interact with the page first.''\<rparr>)
      else
        (let s1 = stopAudio s;
             s2 = s1\<lparr>audioSourceRef := Some (SourceNode None), isPlaying := True\<rparr>
         in if length lines > 0
            then Inl (''Cannot read properties of null (reading 'duration')'', clearLineTimers s2)
            else Inr (s2\<lparr>currentLineIndex := - 1\<rparr>)))"

text \<open>What the application's three collaborators answer: the speech endpoint behind
  \<open>generateSpeech\<close> (\<open>None\<close> for any failure), the mixing endpoint, and
  \<open>decodeAudioData\<close> (\<open>Inl\<close> for a rejection).\<close>

datatype json_reply = NotJson | ErrorField "string option"

datatype mix_reply = NetworkError string | HttpError nat json_reply | HttpOk bytes

record client_env =
  voice_api :: "jsstring \<Rightarrow> bytes option"
  mix_api :: "bytes \<Rightarrow> string \<Rightarrow> mix_reply"
  decode :: "bytes \<Rightarrow> string + audio_buffer"

definition generateSpeech :: "client_env \<Rightarrow> jsstring \<Rightarrow> string + bytes" where
  "generateSpeech env text =
     (case voice_api env text of
        None \<Rightarrow> Inl ''The muse fell silent. Could not capture the voice of your poem.''
      | Some mp3 \<Rightarrow> Inr mp3)"

fun show_nat :: "nat \<Rightarrow> string" where
  "show_nat n =
     (if n < 10 then [''0123456789'' ! n]
      else show_nat (n div 10) @ [''0123456789'' ! (n mod 10)])"

text \<open>\<open>errorData.error || `HTTP error! status: ${response.status}`\<close>, where
  \<open>errorData\<close> is the parsed body or \<open>{ error: 'Unknown mixing error' }\<close>.\<close>

definition http_error_message :: "nat \<Rightarrow> json_reply \<Rightarrow> string" where
  "http_error_message status reply =
     (case reply of
        NotJson \<Rightarrow> ''Unknown mixing error''
      | ErrorField None \<Rightarrow> ''HTTP error! status: '' @ show_nat status
      | ErrorField (Some m) \<Rightarrow> (if m = [] then ''HTTP error! status: '' @ show_nat status else m))"

text \<open>The first statements of \<open>handleMusicChange\<close> after its three guards.\<close>

definition begin_change :: "string \<Rightarrow> app \<Rightarrow> app" where
  "begin_change newMusicChoice s =
     (stopAudio s)\<lparr>errorMessage := [], musicChoice := newMusicChoice, isMixing := True,
                   loadingMessage := ''Weaving your verse with a new melody...''\<rparr>"

text \<open>The \<open>try\<close> block of \<open>handleMusicChange\<close>. \<open>s0\<close> is the state of the render the
  callback closes over, \<open>s\<close> the state the updates so far have produced; \<open>Inl\<close> is a
  throw, with its message. An \<open>await\<close> takes no time here: what the timers do while the
  collaborators work is said with \<open>advance\<close> before or after. The two tests
  \<open>!speechMp3ArrayBuffer\<close> and \<open>!voiceMp3ArrayBuffer\<close> after \<open>generateSpeech\<close> never
  succeed, an \<open>ArrayBuffer\<close> being an object, and have no branch.\<close>

definition try_music :: "client_env \<Rightarrow> app \<Rightarrow> string \<Rightarrow> app \<Rightarrow> (string \<times> app) + app" where
  "try_music env s0 newMusicChoice s =
     (if newMusicChoice = ''none''
      then
        (case (case (speechOnlyDecodedBuffer s0, speechOnlyRawMp3Buffer s0) of
                 (Some decoded, Some raw) \<Rightarrow>
                   Inr (setAudioAndSyncData (generatedPoem s0) decoded raw SpeechOnly s)
               | _ \<Rightarrow>
                   (case generateSpeech env (generatedPoem s0) of
                      Inl m \<Rightarrow> Inl (m, s)
                    | Inr mp3 \<Rightarrow>
                        (case decode env mp3 of
                           Inl m \<Rightarrow> Inl (m, s)
                         | Inr decoded \<Rightarrow>
                             Inr (setAudioAndSyncData (generatedPoem s0) decoded mp3 SpeechOnly s)))) of
           Inl thrown \<Rightarrow> Inl thrown
         | Inr s1 \<Rightarrow>
             (case currentPlaybackAudioBuffer s0 of
                Some buffer \<Rightarrow> Inr (playAudio (poemLines s0) buffer s1)
              | None \<Rightarrow> playAudio_null (poemLines s0) s1))
      else
        (case (case speechOnlyRawMp3Buffer s0 of
                 Some voice \<Rightarrow> Inr (voice, s)
               | None \<Rightarrow>
                   (case generateSpeech env (generatedPoem s0) of
                      Inl m \<Rightarrow> Inl (m, s)
                    | Inr voice \<Rightarrow> Inr (voice, s\<lparr>speechOnlyRawMp3Buffer := Some voice\<rparr>))) of
           Inl thrown \<Rightarrow> Inl thrown
         | Inr (voice, s1) \<Rightarrow>
             (case mix_api env voice newMusicChoice of
                NetworkError m \<Rightarrow> Inl (m, s1)
              | HttpError status reply \<Rightarrow> Inl (http_error_message status reply, s1)
              | HttpOk mixedAudio \<Rightarrow>
                  (case decode env mixedAudio of
                     Inl m \<Rightarrow> Inl (m, s1)
                   | Inr newDecodedBuffer \<Rightarrow>
                       Inr (playAudio (poemLines s0) newDecodedBuffer
                              (setAudioAndSyncData (generatedPoem s0) newDecodedBuffer mixedAudio
                                 Mixed s1))))))"

text \<open>The \<open>catch\<close> block of \<open>handleMusicChange\<close>.\<close>

definition catch_music :: "app \<Rightarrow> string \<Rightarrow> app \<Rightarrow> app" where
  "catch_music s0 msg s =
     (let s1 = s\<lparr>errorMessage := msg, musicChoice := ''none''\<rparr>
      in case (speechOnlyDecodedBuffer s0, speechOnlyRawMp3Buffer s0) of
           (Some decoded, Some raw) \<Rightarrow>
             setAudioAndSyncData (generatedPoem s0) decoded raw SpeechOnly s1
         | _ \<Rightarrow> s1)"

definition handleMusicChange :: "client_env \<Rightarrow> string \<Rightarrow> app \<Rightarrow> app" where
  "handleMusicChange env newMusicChoice s0 =
     (if generatedPoem s0 = []
      then s0\<lparr>errorMessage := ''A voice unheard. Generate your poem's narration before seeking its symphony.''\<rparr>
      else if \<not> audioContext s0
      then s0\<lparr>errorMessage := ''Audio context not initialized. Please interact with the page first.''\<rparr>
      else if musicChoice s0 = newMusicChoice then s0
      else
        (let s1 = (case try_music env s0 newMusicChoice (begin_change newMusicChoice s0) of
                     Inr s \<Rightarrow> s
                   | Inl (msg, s) \<Rightarrow> catch_music s0 msg s)
         in s1\<lparr>isMixing := False, loadingMessage := []\<rparr>))"

section \<open>Auxiliary notions for the statements\<close>

text \<open>The calls in a trace that are operations of the pipeline proper (everything but
  deletions and log lines), by name.\<close>

definition is_ffmpeg :: "event \<Rightarrow> bool" where
  "is_ffmpeg ev = (case ev of EvFfmpeg _ _ \<Rightarrow> True | _ \<Rightarrow> False)"

definition op_name :: "event \<Rightarrow> string option" where
  "op_name ev =
     (case ev of
        EvAccess _ \<Rightarrow> Some ''access''
      | EvMkdir _ \<Rightarrow> Some ''mkdir''
      | EvRename _ _ \<Rightarrow> Some ''rename''
      | EvFfmpeg _ _ \<Rightarrow> Some ''ffmpeg''
      | EvStat _ \<Rightarrow> Some ''stat''
      | EvReadStream _ \<Rightarrow> Some ''createReadStream''
      | _ \<Rightarrow> None)"

definition operations :: "event list \<Rightarrow> string list" where
  "operations tr = List.map_filter op_name tr"

text \<open>Names for the states a run passes through: after the background track was found,
  after the upload was staged, after the media processor wrote its output, and after
  the response headers were set.\<close>

definition accessed :: "path \<Rightarrow> fs \<Rightarrow> run" where
  "accessed p d = emit (EvAccess (Str p)) (init d)"

definition staged :: "env \<Rightarrow> upload \<Rightarrow> run \<Rightarrow> run" where
  "staged e vf s =
     emit (EvRename (filepath vf) (new_voiceFilePath e))
       ((emit (EvMkdir (tempDir e)) s)\<lparr>voiceFilePath := new_voiceFilePath e,
                                         mixedFilePath := new_mixedFilePath e\<rparr>)"

definition the_cmd :: "env \<Rightarrow> path \<Rightarrow> ffmpeg_cmd" where
  "the_cmd e p = mix_command (new_voiceFilePath e) p (new_mixedFilePath e)"

definition mixed :: "ffmpeg_cmd \<Rightarrow> bytes \<Rightarrow> run \<Rightarrow> run" where
  "mixed cmd out s = (emit (EvFfmpeg cmd (MixEnd out)) s)\<lparr>disk := (disk s)(mixedFilePath s \<mapsto> out)\<rparr>"

definition streaming :: "bytes \<Rightarrow> run \<Rightarrow> run" where
  "streaming out s =
     emit (EvReadStream (mixedFilePath s))
       ((emit (EvStat (mixedFilePath s)) s)\<lparr>res := audio_headers (length out) (res s)\<rparr>)"

definition blend_lost :: string where
  "blend_lost = ''The blend was lost in the ether. Failed to weave voice and music into one tapestry.''"

subsection \<open>Concrete inputs\<close>

text \<open>A deployment in which every step succeeds, a well-formed request for the
  \<open>ambient\<close> track, and a disk that holds the upload and the track.\<close>

definition demo_env :: env where
  "demo_env = \<lparr>cwd = ''/app'', mkdir_error = None, stamp_voice = ''1700000000000'',
               token_voice = ''k3x9a'', stamp_mix = ''1700000000001'', token_mix = ''q7w2z'',
               rename_error = None, ffmpeg = (\<lambda>c d. MixEnd [73, 68, 51]), stream = StreamEnd,
               unlink_error = (\<lambda>t p. None)\<rparr>"

definition demo_req :: request where
  "demo_req = \<lparr>req_method = ''POST'',
               form = Inr ([''musicChoice'' \<mapsto> [''ambient'']],
                           [''voice_audio'' \<mapsto> [\<lparr>filepath = ''/tmp/upload_1''\<rparr>]])\<rparr>"

definition demo_disk :: fs where
  "demo_disk = [''/tmp/upload_1'' \<mapsto> [255, 251],
                ''/app/public/audio/ambient_background.mp3'' \<mapsto> [255]]"

text \<open>The same deployment with a media processor that fails, and with a file system
  that refuses to delete.\<close>

definition failing_env :: env where
  "failing_env = demo_env\<lparr>ffmpeg := (\<lambda>c d. MixError ''Invalid data found when processing input'' None)\<rparr>"

definition busy_env :: env where
  "busy_env = demo_env\<lparr>unlink_error := (\<lambda>t p. Some (JsError ''EBUSY'' ''resource busy or locked''))\<rparr>"

text \<open>The application before anything was generated; a buffer of ten seconds; two poem
  lines, \<open>ab\<close> and \<open>cd\<close>; the application after a poem of these two lines has been
  generated and its narration decoded; and a mixing endpoint that works and one that
  answers with an error.\<close>

definition app0 :: app where
  "app0 = \<lparr>generatedPoem = [], poemLines = [], currentLineIndex = - 1,
           speechOnlyDecodedBuffer = None, speechOnlyRawMp3Buffer = None,
           mixedDecodedBuffer = None, mixedRawMp3Buffer = None,
           currentPlaybackAudioBuffer = None, currentDownloadMp3Buffer = None,
           isPlaying = False, loadingMessage = [], errorMessage = [], musicChoice = ''none'',
           isMixing = False, isMixedAudioPlaying = False, audioContext = False,
           audioSourceRef = None, lineTimerRef = None, timers = [], nextTimerId = 0, clock = 0\<rparr>"

definition ten_seconds :: audio_buffer where
  "ten_seconds = \<lparr>frames = 441000, sampleRate = 44100\<rparr>"

definition two_lines :: "jsstring list" where
  "two_lines = [[0x61, 0x62], [0x63, 0x64]]"

definition narrated :: app where
  "narrated = app0\<lparr>generatedPoem := [0x61, 0x62, 0xA, 0x63, 0x64], poemLines := two_lines,
                   speechOnlyDecodedBuffer := Some ten_seconds,
                   speechOnlyRawMp3Buffer := Some [255, 251],
                   currentPlaybackAudioBuffer := Some ten_seconds,
                   currentDownloadMp3Buffer := Some [255, 251],
                   audioContext := True\<rparr>"

definition mixing_works :: client_env where
  "mixing_works = \<lparr>voice_api = (\<lambda>t. Some [255, 251]), mix_api = (\<lambda>v k. HttpOk [73, 68, 51]),
                   decode = (\<lambda>b. Inr ten_seconds)\<rparr>"

definition mixing_down :: client_env where
  "mixing_down = \<lparr>voice_api = (\<lambda>t. Some [255, 251]),
                  mix_api = (\<lambda>v k. HttpError 500 (ErrorField (Some ''The blend was lost''))),
                  decode = (\<lambda>b. Inr ten_seconds)\<rparr>"

section \<open>The mixing endpoint: execution paths\<close>

lemma unlink_quietly_fields [simp]:
  "res (unlink_quietly e l p s) = res s"
  "voiceFilePath (unlink_quietly e l p s) = voiceFilePath s"
  "mixedFilePath (unlink_quietly e l p s) = mixedFilePath s"
  "returned (unlink_quietly e l p s) = returned s"
  by (simp_all add: unlink_quietly_def split: prod.splits option.splits)

lemma unlink_quietly_trace:
  "trace (unlink_quietly e l p s) = trace s @ [EvUnlink p] \<or>
   (\<exists>m. trace (unlink_quietly e l p s) = trace s @ [EvUnlink p, EvWarn m])"
  by (simp add: unlink_quietly_def split: prod.splits option.splits)

lemma unlink_quietly_attempt [simp]: "EvUnlink p \<in> set (trace (unlink_quietly e l p s))"
  using unlink_quietly_trace [of e l p s] by auto


lemma unlink_quietly_other_events [simp]:
  "EvFfmpeg c r \<in> set (trace (unlink_quietly e l p s)) \<longleftrightarrow> EvFfmpeg c r \<in> set (trace s)"
  "EvReadStream q \<in> set (trace (unlink_quietly e l p s)) \<longleftrightarrow> EvReadStream q \<in> set (trace s)"
  using unlink_quietly_trace [of e l p s] by auto

lemma operations_simps [simp]:
  "operations [] = []"
  "operations (tr @ tr') = operations tr @ operations tr'"
  "operations (ev # tr) = (case op_name ev of None \<Rightarrow> operations tr | Some n \<Rightarrow> n # operations tr)"
  by (simp_all add: operations_def List.map_filter_def split: option.split)

lemma unlink_quietly_operations [simp]:
  "operations (trace (unlink_quietly e l p s)) = operations (trace s)"
  using unlink_quietly_trace [of e l p s] by (auto simp: op_name_def)

lemma unlink_quietly_filter [simp]:
  "filter is_ffmpeg (trace (unlink_quietly e l p s)) = filter is_ffmpeg (trace s)"
  using unlink_quietly_trace [of e l p s] by (auto simp: is_ffmpeg_def)

lemma MUSIC_FILES_Str:
  "MUSIC_FILES c k = Str p \<Longrightarrow> k = ''ambient'' \<or> k = ''orchestral''"
  by (simp add: MUSIC_FILES_def split: if_splits)

lemma fs_access_Inr:
  "fs_access v d = Inr p \<Longrightarrow> v = Str p \<and> d p \<noteq> None"
  by (cases v) (auto simp: fs_access_def split: if_splits)

text \<open>Each block of the handler, as a case rule: a property holds of the block's
  outcome when it holds on each of its paths.\<close>

lemma try_block_cases:
  assumes "\<And>err. form req = Inl err \<Longrightarrow> P (Threw err s)"
    and "\<And>flds fls. form req = Inr (flds, fls) \<Longrightarrow> first_of (fls ''voice_audio'') = None \<Longrightarrow>
           P (Done (respond 400 ''Voice audio file is required for mixing.'' s))"
    and "\<And>flds fls vf. form req = Inr (flds, fls) \<Longrightarrow> first_of (fls ''voice_audio'') = Some vf \<Longrightarrow>
           first_of (flds ''musicChoice'') = None \<or> first_of (flds ''musicChoice'') = Some [] \<or>
           (\<exists>k. first_of (flds ''musicChoice'') = Some k \<and> MUSIC_FILES (cwd e) k = Undefined) \<Longrightarrow>
           P (Done (respond 400 ''The harmony awaits. Please choose a background melody to accompany your verse.'' s))"
    and "\<And>flds fls vf k v err. form req = Inr (flds, fls) \<Longrightarrow> first_of (fls ''voice_audio'') = Some vf \<Longrightarrow>
           first_of (flds ''musicChoice'') = Some k \<Longrightarrow> k \<noteq> [] \<Longrightarrow> MUSIC_FILES (cwd e) k = v \<Longrightarrow>
           v \<noteq> Undefined \<Longrightarrow> fs_access v (disk s) = Inl err \<Longrightarrow>
           P (Done (respond 500 ''The chosen melody is lost in the mists. Background music file not found on the server.''
                (emit (EvError ''Music file not found'') (emit (EvAccess v) s))))"
    and "\<And>flds fls vf k p. form req = Inr (flds, fls) \<Longrightarrow> first_of (fls ''voice_audio'') = Some vf \<Longrightarrow>
           first_of (flds ''musicChoice'') = Some k \<Longrightarrow> k \<noteq> [] \<Longrightarrow> MUSIC_FILES (cwd e) k = Str p \<Longrightarrow>
           disk s p \<noteq> None \<Longrightarrow>
           P (stage_files e vf p (emit (EvAccess (Str p)) s))"
  shows "P (try_block e req s)"
proof (cases "form req")
  case (Inl err)
  then show ?thesis using assms(1) by (simp add: try_block_def)
next
  case (Inr ff)
  obtain flds fls where ff: "ff = (flds, fls)" by (cases ff)
  note form = Inr [unfolded ff]
  show ?thesis
  proof (cases "first_of (fls ''voice_audio'')")
    case None
    then show ?thesis using assms(2) [OF form] by (simp add: try_block_def form)
  next
    case (Some vf)
    note voice = this
    show ?thesis
    proof (cases "first_of (flds ''musicChoice'')")
      case None
      then show ?thesis using assms(3) [OF form voice] by (simp add: try_block_def form voice)
    next
      case (Some k)
      note music = this
      show ?thesis
      proof (cases "k = [] \<or> MUSIC_FILES (cwd e) k = Undefined")
        case True
        then show ?thesis using assms(3) [OF form voice] music
          by (auto simp: try_block_def form voice)
      next
        case False
        then have k: "k \<noteq> []" and v: "MUSIC_FILES (cwd e) k \<noteq> Undefined" by simp_all
        show ?thesis
        proof (cases "fs_access (MUSIC_FILES (cwd e) k) (disk s)")
          case (Inl err)
          then show ?thesis using assms(4) [OF form voice music k refl v Inl] k v
            by (simp add: try_block_def form voice music Let_def)
        next
          case (Inr p)
          from fs_access_Inr [OF this]
          have p: "MUSIC_FILES (cwd e) k = Str p" and there: "disk s p \<noteq> None" by simp_all
          show ?thesis using assms(5) [OF form voice music k p there] k Inr
            by (simp add: try_block_def form voice music Let_def p)
        qed
      qed
    qed
  qed
qed

lemma stage_files_cases:
  assumes "\<And>err. mkdir_error e = Some err \<Longrightarrow> P (Threw err (emit (EvMkdir (tempDir e)) s))"
    and "\<And>err. mkdir_error e = None \<Longrightarrow>
           fs_rename e (filepath vf) (new_voiceFilePath e) (disk s) = Inl err \<Longrightarrow>
           P (Threw err (staged e vf s))"
    and "\<And>d'. mkdir_error e = None \<Longrightarrow>
           fs_rename e (filepath vf) (new_voiceFilePath e) (disk s) = Inr d' \<Longrightarrow>
           P (mix e p ((staged e vf s)\<lparr>disk := d'\<rparr>))"
  shows "P (stage_files e vf p s)"
  using assms
  by (auto simp: stage_files_def staged_def emit_def Let_def split: option.split sum.split)

lemma mix_cases:
  assumes "\<And>msg partial. ffmpeg e (mix_command (voiceFilePath s) p (mixedFilePath s)) (disk s) = MixError msg partial \<Longrightarrow>
             P (Threw (JsError [] blend_lost)
                  (emit (EvError (''FFmpeg error: '' @ msg))
                     ((emit (EvFfmpeg (mix_command (voiceFilePath s) p (mixedFilePath s)) (MixError msg partial)) s)
                        \<lparr>disk := (case partial of None \<Rightarrow> disk s | Some b \<Rightarrow> (disk s)(mixedFilePath s \<mapsto> b))\<rparr>)))"
    and "\<And>out. ffmpeg e (mix_command (voiceFilePath s) p (mixedFilePath s)) (disk s) = MixEnd out \<Longrightarrow>
             P (stream_back e (mixed (mix_command (voiceFilePath s) p (mixedFilePath s)) out s))"
  shows "P (mix e p s)"
  using assms
  by (auto simp: mix_def mixed_def blend_lost_def Let_def split: ffmpeg_result.split)

lemma stream_back_cases:
  assumes "disk s (mixedFilePath s) = Some out"
    and "stream e = StreamEnd \<Longrightarrow>
           P (Done (unlink_quietly e ''Failed to clean up mixed temp file: '' (mixedFilePath s)
                     (unlink_quietly e ''Failed to clean up voice temp file: '' (voiceFilePath s)
                       ((streaming out s)\<lparr>res := (audio_headers (length out) (res s))
                            \<lparr>body := Audio out, headersSent := True, finished := True\<rparr>\<rparr>))))"
    and "\<And>n. stream e = StreamError n \<Longrightarrow>
           P (Done (emit (EvError ''Error streaming mixed audio:'')
                     ((streaming out s)\<lparr>res := (audio_headers (length out) (res s))
                          \<lparr>body := Audio (take n out), headersSent := (0 < n)\<rparr>\<rparr>)))"
    and "\<And>n. stream e = StreamStalled n \<Longrightarrow>
           P (Stalled ((streaming out s)\<lparr>res := (audio_headers (length out) (res s))
                          \<lparr>body := Audio (take n out), headersSent := (0 < n)\<rparr>\<rparr>))"
  shows "P (stream_back e s)"
  using assms
  by (auto simp: stream_back_def streaming_def emit_def Let_def split: stream_outcome.split)

lemma mixed_disk [simp]: "disk (mixed cmd out s) (mixedFilePath (mixed cmd out s)) = Some out"
  by (simp add: mixed_def emit_def)

text \<open>The ten paths through the \<open>try\<close> block, each with the conditions under which it
  is taken and the state it ends in.\<close>

lemma try_paths:
  assumes parse_error: "\<And>err. form req = Inl err \<Longrightarrow> P (Threw err (init d))"
    and no_voice: "\<And>flds fls. form req = Inr (flds, fls) \<Longrightarrow> first_of (fls ''voice_audio'') = None \<Longrightarrow>
           P (Done (respond 400 ''Voice audio file is required for mixing.'' (init d)))"
    and bad_music: "\<And>flds fls vf. form req = Inr (flds, fls) \<Longrightarrow> first_of (fls ''voice_audio'') = Some vf \<Longrightarrow>
           first_of (flds ''musicChoice'') = None \<or> first_of (flds ''musicChoice'') = Some [] \<or>
           (\<exists>k. first_of (flds ''musicChoice'') = Some k \<and> MUSIC_FILES (cwd e) k = Undefined) \<Longrightarrow>
           P (Done (respond 400 ''The harmony awaits. Please choose a background melody to accompany your verse.'' (init d)))"
    and no_track: "\<And>flds fls vf k v err. form req = Inr (flds, fls) \<Longrightarrow> first_of (fls ''voice_audio'') = Some vf \<Longrightarrow>
           first_of (flds ''musicChoice'') = Some k \<Longrightarrow> k \<noteq> [] \<Longrightarrow> MUSIC_FILES (cwd e) k = v \<Longrightarrow>
           v \<noteq> Undefined \<Longrightarrow> fs_access v d = Inl err \<Longrightarrow>
           P (Done (respond 500 ''The chosen melody is lost in the mists. Background music file not found on the server.''
                (emit (EvError ''Music file not found'') (emit (EvAccess v) (init d)))))"
    and mkdir_fails: "\<And>flds fls vf k p err. form req = Inr (flds, fls) \<Longrightarrow>
           first_of (fls ''voice_audio'') = Some vf \<Longrightarrow> first_of (flds ''musicChoice'') = Some k \<Longrightarrow>
           k \<noteq> [] \<Longrightarrow> MUSIC_FILES (cwd e) k = Str p \<Longrightarrow> d p \<noteq> None \<Longrightarrow>
           mkdir_error e = Some err \<Longrightarrow>
           P (Threw err (emit (EvMkdir (tempDir e)) (accessed p d)))"
    and rename_fails: "\<And>flds fls vf k p err. form req = Inr (flds, fls) \<Longrightarrow>
           first_of (fls ''voice_audio'') = Some vf \<Longrightarrow> first_of (flds ''musicChoice'') = Some k \<Longrightarrow>
           k \<noteq> [] \<Longrightarrow> MUSIC_FILES (cwd e) k = Str p \<Longrightarrow> d p \<noteq> None \<Longrightarrow>
           mkdir_error e = None \<Longrightarrow>
           fs_rename e (filepath vf) (new_voiceFilePath e) d = Inl err \<Longrightarrow>
           P (Threw err (staged e vf (accessed p d)))"
    and mix_fails: "\<And>flds fls vf k p d' msg partial. form req = Inr (flds, fls) \<Longrightarrow>
           first_of (fls ''voice_audio'') = Some vf \<Longrightarrow> first_of (flds ''musicChoice'') = Some k \<Longrightarrow>
           k \<noteq> [] \<Longrightarrow> MUSIC_FILES (cwd e) k = Str p \<Longrightarrow> d p \<noteq> None \<Longrightarrow>
           mkdir_error e = None \<Longrightarrow>
           fs_rename e (filepath vf) (new_voiceFilePath e) d = Inr d' \<Longrightarrow>
           ffmpeg e (the_cmd e p) d' = MixError msg partial \<Longrightarrow>
           P (Threw (JsError [] blend_lost)
                (emit (EvError (''FFmpeg error: '' @ msg))
                   ((emit (EvFfmpeg (the_cmd e p) (MixError msg partial)) (staged e vf (accessed p d)))
                      \<lparr>disk := (case partial of None \<Rightarrow> d' | Some b \<Rightarrow> d'(new_mixedFilePath e \<mapsto> b))\<rparr>)))"
    and stream_ends: "\<And>flds fls vf k p d' out. form req = Inr (flds, fls) \<Longrightarrow>
           first_of (fls ''voice_audio'') = Some vf \<Longrightarrow> first_of (flds ''musicChoice'') = Some k \<Longrightarrow>
           k \<noteq> [] \<Longrightarrow> MUSIC_FILES (cwd e) k = Str p \<Longrightarrow> d p \<noteq> None \<Longrightarrow>
           mkdir_error e = None \<Longrightarrow>
           fs_rename e (filepath vf) (new_voiceFilePath e) d = Inr d' \<Longrightarrow>
           ffmpeg e (the_cmd e p) d' = MixEnd out \<Longrightarrow> stream e = StreamEnd \<Longrightarrow>
           P (Done (unlink_quietly e ''Failed to clean up mixed temp file: '' (new_mixedFilePath e)
                     (unlink_quietly e ''Failed to clean up voice temp file: '' (new_voiceFilePath e)
                       ((streaming out (mixed (the_cmd e p) out ((staged e vf (accessed p d))\<lparr>disk := d'\<rparr>)))
                          \<lparr>res := (audio_headers (length out) res0)
                              \<lparr>body := Audio out, headersSent := True, finished := True\<rparr>\<rparr>))))"
    and stream_errors: "\<And>flds fls vf k p d' out n. form req = Inr (flds, fls) \<Longrightarrow>
           first_of (fls ''voice_audio'') = Some vf \<Longrightarrow> first_of (flds ''musicChoice'') = Some k \<Longrightarrow>
           k \<noteq> [] \<Longrightarrow> MUSIC_FILES (cwd e) k = Str p \<Longrightarrow> d p \<noteq> None \<Longrightarrow>
           mkdir_error e = None \<Longrightarrow>
           fs_rename e (filepath vf) (new_voiceFilePath e) d = Inr d' \<Longrightarrow>
           ffmpeg e (the_cmd e p) d' = MixEnd out \<Longrightarrow> stream e = StreamError n \<Longrightarrow>
           P (Done (emit (EvError ''Error streaming mixed audio:'')
                     ((streaming out (mixed (the_cmd e p) out ((staged e vf (accessed p d))\<lparr>disk := d'\<rparr>)))
                        \<lparr>res := (audio_headers (length out) res0)
                            \<lparr>body := Audio (take n out), headersSent := (0 < n)\<rparr>\<rparr>)))"
    and stream_stalls: "\<And>flds fls vf k p d' out n. form req = Inr (flds, fls) \<Longrightarrow>
           first_of (fls ''voice_audio'') = Some vf \<Longrightarrow> first_of (flds ''musicChoice'') = Some k \<Longrightarrow>
           k \<noteq> [] \<Longrightarrow> MUSIC_FILES (cwd e) k = Str p \<Longrightarrow> d p \<noteq> None \<Longrightarrow>
           mkdir_error e = None \<Longrightarrow>
           fs_rename e (filepath vf) (new_voiceFilePath e) d = Inr d' \<Longrightarrow>
           ffmpeg e (the_cmd e p) d' = MixEnd out \<Longrightarrow> stream e = StreamStalled n \<Longrightarrow>
           P (Stalled ((streaming out (mixed (the_cmd e p) out ((staged e vf (accessed p d))\<lparr>disk := d'\<rparr>)))
                        \<lparr>res := (audio_headers (length out) res0)
                            \<lparr>body := Audio (take n out), headersSent := (0 < n)\<rparr>\<rparr>))"
  shows "P (try_block e req (init d))"
proof (rule try_block_cases, goal_cases)
  case (5 flds fls vf k p)
  then have there: "d p \<noteq> None" by (simp add: init_def)
  note pre = 5(1-5) there
  have acc: "emit (EvAccess (Str p)) (init d) = accessed p d" by (simp add: accessed_def)
  show ?case
    unfolding acc
  proof (rule stage_files_cases, goal_cases)
    case (3 d')
    then have rn: "fs_rename e (filepath vf) (new_voiceFilePath e) d = Inr d'"
      by (simp add: accessed_def emit_def init_def)
    note pre' = pre 3(1) rn
    let ?s = "(staged e vf (accessed p d))\<lparr>disk := d'\<rparr>"
    have paths: "voiceFilePath ?s = new_voiceFilePath e" "mixedFilePath ?s = new_mixedFilePath e"
      "disk ?s = d'" "res ?s = res0"
      by (simp_all add: staged_def accessed_def emit_def init_def)
    show ?case
    proof (rule mix_cases, goal_cases)
      case (1 msg partial)
      then have "ffmpeg e (the_cmd e p) d' = MixError msg partial"
        by (simp add: paths the_cmd_def)
      from mix_fails [OF pre' this]
      show ?case
        by (simp add: paths the_cmd_def emit_def cong: option.case_cong)
    next
      case (2 out)
      then have ff: "ffmpeg e (the_cmd e p) d' = MixEnd out"
        by (simp add: paths the_cmd_def)
      let ?m = "mixed (the_cmd e p) out ?s"
      have m: "voiceFilePath ?m = new_voiceFilePath e" "mixedFilePath ?m = new_mixedFilePath e"
        "res ?m = res0"
        using paths by (simp_all add: mixed_def emit_def)
      have "P (stream_back e ?m)"
      proof (rule stream_back_cases [where out = out])
        show "disk ?m (mixedFilePath ?m) = Some out" by simp
      qed (use stream_ends [OF pre' ff] stream_errors [OF pre' ff] stream_stalls [OF pre' ff]
          in \<open>simp_all add: m\<close>)
      then show ?case
        by (simp add: paths the_cmd_def)
    qed
  next
    case (1 err)
    from mkdir_fails [OF pre this] show ?case .
  next
    case (2 err)
    then have "fs_rename e (filepath vf) (new_voiceFilePath e) d = Inl err"
      by (simp add: accessed_def emit_def init_def)
    from rename_fails [OF pre 2(1) this] show ?case .
  qed
qed (use parse_error no_voice bad_music no_track in \<open>simp_all add: init_def\<close>)

lemmas path_simps = finally_block_def catch_block_def respond_def json_error_def emit_def init_def
  staged_def accessed_def mixed_def streaming_def audio_headers_def res0_def the_cmd_def
  blend_lost_def Let_def

lemmas handler_defs = handler_def try_block_def stage_files_def mix_def stream_back_def
  finally_block_def catch_block_def unlink_quietly_def fs_unlink_def fs_rename_def fs_access_def
  MUSIC_FILES_def object_prototype_keys_def first_of_def respond_def json_error_def emit_def
  init_def res0_def audio_headers_def enoent_def tempDir_def new_voiceFilePath_def
  new_mixedFilePath_def mix_command_def Let_def

lemmas demo_defs = demo_env_def demo_req_def demo_disk_def failing_env_def busy_env_def the_cmd_def

lemma unlink_error_irrelevant [simp]:
  "tempDir (e\<lparr>unlink_error := u\<rparr>) = tempDir e"
  "new_voiceFilePath (e\<lparr>unlink_error := u\<rparr>) = new_voiceFilePath e"
  "new_mixedFilePath (e\<lparr>unlink_error := u\<rparr>) = new_mixedFilePath e"
  "fs_rename (e\<lparr>unlink_error := u\<rparr>) = fs_rename e"
  by (simp_all add: tempDir_def new_voiceFilePath_def new_mixedFilePath_def fs_rename_def fun_eq_iff
      cong: option.case_cong)

text \<open>What the deletions run into has no influence on the response.\<close>

lemma response_ignores_unlink:
  "res (handler (e\<lparr>unlink_error := u\<rparr>) req d) = res (handler e req d)"
proof (cases "req_method req = ''POST''")
  case False
  then show ?thesis by (simp add: handler_def)
next
  case True
  have "res (finally_block (e\<lparr>unlink_error := u\<rparr>)
               (catch_block (try_block (e\<lparr>unlink_error := u\<rparr>) req (init d)))) =
        res (finally_block e (catch_block (try_block e req (init d))))"
    by (rule try_paths)
       (auto simp: path_simps try_block_def stage_files_def mix_def stream_back_def fs_access_def)
  then show ?thesis using True by (simp add: handler_def)
qed

text \<open>A music key that is missing, empty or nowhere on the prototype chain of
  \<open>MUSIC_FILES\<close> is answered with 400, and nothing is touched.\<close>

lemma unknown_key_rejected:
  assumes "req_method req = ''POST''" and "form req = Inr (flds, fls)"
    and "first_of (fls ''voice_audio'') = Some vf"
    and "first_of (flds ''musicChoice'') = None \<or> first_of (flds ''musicChoice'') = Some [] \<or>
         (\<exists>k. first_of (flds ''musicChoice'') = Some k \<and> MUSIC_FILES (cwd e) k = Undefined)"
  shows "statusCode (res (handler e req d)) = 400
       \<and> body (res (handler e req d)) =
           Json ''The harmony awaits. Please choose a background melody to accompany your verse.''
       \<and> trace (handler e req d) = [EvUnlink [], EvUnlink []]
       \<and> disk (handler e req d) = d
       \<and> voiceFilePath (handler e req d) = [] \<and> mixedFilePath (handler e req d) = []
       \<and> returned (handler e req d)"
  using assms
  by (auto simp: handler_def try_block_def finally_block_def catch_block_def respond_def
      json_error_def init_def unlink_quietly_def fs_unlink_def enoent_def)

text \<open>A valid request reaches the media processor once the scratch directory could be
  made and the upload could be moved.\<close>

lemma valid_request_reaches_processor:
  assumes "req_method req = ''POST''" and "form req = Inr (flds, fls)"
    and "first_of (fls ''voice_audio'') = Some vf"
    and "first_of (flds ''musicChoice'') = Some k" and "k = ''ambient'' \<or> k = ''orchestral''"
    and "MUSIC_FILES (cwd e) k = Str p" and "d p \<noteq> None"
    and "mkdir_error e = None"
    and "fs_rename e (filepath vf) (new_voiceFilePath e) d = Inr d'"
  shows "EvFfmpeg (the_cmd e p) (ffmpeg e (the_cmd e p) d') \<in> set (trace (handler e req d))"
proof -
  define Q where "Q r \<longleftrightarrow> EvFfmpeg (the_cmd e p) (ffmpeg e (the_cmd e p) d') \<in> set (trace r)"
    for r :: run
  have "Q (finally_block e (catch_block (try_block e req (init d))))"
    by (rule try_paths) (use assms in \<open>auto simp: Q_def path_simps fs_access_def\<close>)
  then show ?thesis using assms(1) by (simp add: handler_def Q_def)
qed

section \<open>The browser application: lemmas\<close>

lemmas client_defs = playAudio_def stopAudio_def clearLineTimers_def clearTimeout_def
  set_line_timer_def lineDurations_def totalChars_def duration_def advance_def onended_def
  app0_def ten_seconds_def two_lines_def Let_def

lemmas music_defs = handleMusicChange_def try_music_def catch_music_def begin_change_def
  setAudioAndSyncData_def generateSpeech_def http_error_message_def narrated_def
  mixing_works_def mixing_down_def poem_lines_of_def trim_def is_space_def

lemma trim_Nil [simp]: "trim [] = []"
  by (simp add: trim_def)

lemma poem_lines_nonempty: "line \<in> set (poem_lines_of poem) \<Longrightarrow> line \<noteq> []"
  by (auto simp: poem_lines_of_def)

lemma foldl_length_sum: "foldl (\<lambda>sum line. sum + length line) n lines = n + sum_list (map length lines)"
  by (induction lines arbitrary: n) simp_all

lemma totalChars_sum: "totalChars lines = sum_list (map length lines)"
  by (simp add: totalChars_def foldl_length_sum)

lemma totalChars_pos:
  assumes "lines \<noteq> []" and "\<forall>line \<in> set lines. line \<noteq> []"
  shows "0 < totalChars lines"
proof -
  obtain l ls where "lines = l # ls" using assms(1) by (cases lines) auto
  with assms(2) show ?thesis by (cases l) (simp_all add: totalChars_sum)
qed

lemma duration_nonneg: "0 \<le> duration b"
  by (simp add: duration_def)

lemma lineDurations_finite:
  assumes "0 < totalChars lines"
  shows "lineDurations D lines = map (\<lambda>line. Num (D * (real (length line) / real (totalChars lines)))) lines"
  using assms by (simp add: lineDurations_def)





lemma clearLineTimers_fields [simp]:
  "lineTimerRef (clearLineTimers s) = None"
  "nextTimerId (clearLineTimers s) = nextTimerId s"
  "clock (clearLineTimers s) = clock s"
  "isMixedAudioPlaying (clearLineTimers s) = isMixedAudioPlaying s"
  by (simp_all add: clearLineTimers_def clearTimeout_def split: option.split)


lemma stopAudio_fields [simp]:
  "lineTimerRef (stopAudio s) = None"
  "nextTimerId (stopAudio s) = nextTimerId s"
  "clock (stopAudio s) = clock s"
  "isMixedAudioPlaying (stopAudio s) = False"
  by (simp_all add: stopAudio_def Let_def)

text \<open>Each of the three ways in which mixing can fail makes the \<open>try\<close> block of
  \<open>handleMusicChange\<close> throw.\<close>

lemma mix_failure_throws:
  assumes "newMusicChoice \<noteq> ''none''" and "speechOnlyRawMp3Buffer s0 = Some voice"
    and "(\<exists>m. mix_api env voice newMusicChoice = NetworkError m)
       \<or> (\<exists>status reply. mix_api env voice newMusicChoice = HttpError status reply)
       \<or> (\<exists>mixedAudio m. mix_api env voice newMusicChoice = HttpOk mixedAudio \<and> decode env mixedAudio = Inl m)"
  shows "isl (try_music env s0 newMusicChoice s)"
  using assms by (auto simp: try_music_def)

text \<open>\<open>stopAudio\<close> cancels the one timer that \<open>lineTimerRef\<close> holds, and no other.\<close>

lemma stopAudio_cancels_one:
  "timers (stopAudio s) =
     (case lineTimerRef s of None \<Rightarrow> timers s | Some i \<Rightarrow> filter (\<lambda>t. tid t \<noteq> i) (timers s))"
  by (simp add: stopAudio_def clearLineTimers_def clearTimeout_def Let_def split: option.split)

section \<open>The mixing endpoint: properties\<close>

text \<open>
  C1, as the code has it. Whenever the external media processor is invoked and reports
  success with output \<open>out\<close>, the request was a POST that passed validation (narration
  part present, music key one of the two known keys, background track on disk), and
  the response keeps status 200 and carries
  Content-Type \<open>audio/mpeg\<close> and a Content-Length equal to the byte size of the file the
  processor produced. The body is exactly that file's bytes when the read stream ends
  normally, and only the bytes delivered so far when the stream errors or stalls; with
  a normal end the response is finished and the handler returns.
\<close>

theorem mix_response_after_success:
  assumes "EvFfmpeg c (MixEnd out) \<in> set (trace (handler e req d))"
  shows "req_method req = ''POST''
       \<and> (\<exists>flds fls vf k p. form req = Inr (flds, fls)
             \<and> first_of (fls ''voice_audio'') = Some vf
             \<and> first_of (flds ''musicChoice'') = Some k
             \<and> (k = ''ambient'' \<or> k = ''orchestral'')
             \<and> MUSIC_FILES (cwd e) k = Str p \<and> d p \<noteq> None)
       \<and> statusCode (res (handler e req d)) = 200
       \<and> headers (res (handler e req d)) ''Content-Type'' = Some (HStr ''audio/mpeg'')
       \<and> headers (res (handler e req d)) ''Content-Length'' = Some (HNum (length out))
       \<and> body (res (handler e req d)) =
            Audio (case stream e of StreamEnd \<Rightarrow> out | StreamError n \<Rightarrow> take n out
                   | StreamStalled n \<Rightarrow> take n out)
       \<and> (stream e = StreamEnd \<longrightarrow> finished (res (handler e req d)) \<and> returned (handler e req d))"
proof (cases "req_method req = ''POST''")
  case False
  with assms show ?thesis by (simp add: handler_def respond_def init_def)
next
  case True
  define Q where "Q r \<longleftrightarrow> (EvFfmpeg c (MixEnd out) \<in> set (trace r) \<longrightarrow>
       (\<exists>flds fls vf k p. form req = Inr (flds, fls)
             \<and> first_of (fls ''voice_audio'') = Some vf
             \<and> first_of (flds ''musicChoice'') = Some k
             \<and> (k = ''ambient'' \<or> k = ''orchestral'')
             \<and> MUSIC_FILES (cwd e) k = Str p \<and> d p \<noteq> None)
       \<and> statusCode (res r) = 200
       \<and> headers (res r) ''Content-Type'' = Some (HStr ''audio/mpeg'')
       \<and> headers (res r) ''Content-Length'' = Some (HNum (length out))
       \<and> body (res r) =
            Audio (case stream e of StreamEnd \<Rightarrow> out | StreamError n \<Rightarrow> take n out
                   | StreamStalled n \<Rightarrow> take n out)
       \<and> (stream e = StreamEnd \<longrightarrow> finished (res r) \<and> returned r))" for r :: run
  have "Q (finally_block e (catch_block (try_block e req (init d))))"
  proof (rule try_paths, goal_cases)
    case (8 flds fls vf k p d' out')
    from MUSIC_FILES_Str [OF 8(5)] 8 show ?case
      by (auto simp: Q_def path_simps)
  next
    case (9 flds fls vf k p d' out' n)
    from MUSIC_FILES_Str [OF 9(5)] 9 show ?case
      by (auto simp: Q_def path_simps)
  next
    case (10 flds fls vf k p d' out' n)
    from MUSIC_FILES_Str [OF 10(5)] 10 show ?case
      by (auto simp: Q_def path_simps)
  qed (simp_all add: Q_def path_simps)
  then show ?thesis using assms True by (simp add: handler_def Q_def)
qed

theorem mix_response_after_success_witness:
  "EvFfmpeg (the_cmd demo_env ''/app/public/audio/ambient_background.mp3'') (MixEnd [73, 68, 51])
     \<in> set (trace (handler demo_env demo_req demo_disk))
   \<and> stream demo_env = StreamEnd
   \<and> statusCode (res (handler demo_env demo_req demo_disk)) = 200
   \<and> headers (res (handler demo_env demo_req demo_disk)) ''Content-Type'' = Some (HStr ''audio/mpeg'')
   \<and> headers (res (handler demo_env demo_req demo_disk)) ''Content-Length'' = Some (HNum 3)
   \<and> body (res (handler demo_env demo_req demo_disk)) = Audio [73, 68, 51]
   \<and> returned (handler demo_env demo_req demo_disk)"
proof -
  have invoked: "EvFfmpeg (the_cmd demo_env ''/app/public/audio/ambient_background.mp3'')
      (MixEnd [73, 68, 51]) \<in> set (trace (handler demo_env demo_req demo_disk))"
    by (simp add: handler_defs demo_defs)
  have ends: "stream demo_env = StreamEnd"
    by (simp add: demo_env_def)
  from mix_response_after_success [OF invoked] invoked ends show ?thesis
    by simp
qed

text \<open>C1 as the specification states it fails when the read stream errors: the request
  is valid, the media processor succeeded with three bytes, the Content-Length says 3,
  and the body holds one byte.\<close>

theorem stream_error_truncates_body:
  "req_method demo_req = ''POST''
   \<and> first_of (snd (projr (form demo_req)) ''voice_audio'') = Some \<lparr>filepath = ''/tmp/upload_1''\<rparr>
   \<and> first_of (fst (projr (form demo_req)) ''musicChoice'') = Some ''ambient''
   \<and> MUSIC_FILES (cwd demo_env) ''ambient'' = Str ''/app/public/audio/ambient_background.mp3''
   \<and> demo_disk ''/app/public/audio/ambient_background.mp3'' = Some [255]
   \<and> EvFfmpeg (the_cmd demo_env ''/app/public/audio/ambient_background.mp3'') (MixEnd [73, 68, 51])
       \<in> set (trace (handler (demo_env\<lparr>stream := StreamError 1\<rparr>) demo_req demo_disk))
   \<and> headers (res (handler (demo_env\<lparr>stream := StreamError 1\<rparr>) demo_req demo_disk)) ''Content-Length''
       = Some (HNum 3)
   \<and> body (res (handler (demo_env\<lparr>stream := StreamError 1\<rparr>) demo_req demo_disk)) = Audio [73]
   \<and> body (res (handler (demo_env\<lparr>stream := StreamError 1\<rparr>) demo_req demo_disk)) \<noteq> Audio [73, 68, 51]"
  by (simp add: handler_defs demo_defs)

text \<open>
  C2. Every invocation of the media processor, in every run, carries the one fixed
  configuration: the filter graph scales the second input to volume 0.25 and mixes the
  two inputs with \<open>duration=first\<close>; the output options select \<open>libmp3lame\<close> at quality
  2; the first input is the narration's scratch copy, the second the background track
  of a known key, and the output is the mix scratch path. The processor is invoked at
  most once per run. When it reports failure the response is the 500 JSON error with
  the fixed message, no audio header is set, no stream of the output is opened, and
  the handler returns.
\<close>

theorem fixed_mixing_policy:
  "(\<forall>c r. EvFfmpeg c r \<in> set (trace (handler e req d)) \<longrightarrow>
       complexFilter c = [''[1:a]volume=0.25[music_vol]'',
                          ''[0:a][music_vol]amix=inputs=2:duration=first:dropout_transition=2[aout]'']
     \<and> outputOptions c = [''-map [aout]'', ''-c:a libmp3lame'', ''-q:a 2'']
     \<and> (\<exists>k \<in> {''ambient'', ''orchestral''}. \<exists>music. MUSIC_FILES (cwd e) k = Str music
           \<and> inputs c = [voiceFilePath (handler e req d), music])
     \<and> save_to c = mixedFilePath (handler e req d))
   \<and> length (filter is_ffmpeg (trace (handler e req d))) \<le> 1
   \<and> (\<forall>c msg partial. EvFfmpeg c (MixError msg partial) \<in> set (trace (handler e req d)) \<longrightarrow>
         statusCode (res (handler e req d)) = 500
       \<and> body (res (handler e req d)) =
           Json ''The blend was lost in the ether. Failed to weave voice and music into one tapestry.''
       \<and> headers (res (handler e req d)) = Map.empty
       \<and> EvReadStream (mixedFilePath (handler e req d)) \<notin> set (trace (handler e req d))
       \<and> returned (handler e req d))"
proof (cases "req_method req = ''POST''")
  case False
  then show ?thesis by (simp add: handler_def respond_def init_def is_ffmpeg_def)
next
  case True
  define Q where "Q r \<longleftrightarrow> (\<forall>c r'. EvFfmpeg c r' \<in> set (trace r) \<longrightarrow>
       complexFilter c = [''[1:a]volume=0.25[music_vol]'',
                          ''[0:a][music_vol]amix=inputs=2:duration=first:dropout_transition=2[aout]'']
     \<and> outputOptions c = [''-map [aout]'', ''-c:a libmp3lame'', ''-q:a 2'']
     \<and> (\<exists>k \<in> {''ambient'', ''orchestral''}. \<exists>music. MUSIC_FILES (cwd e) k = Str music
           \<and> inputs c = [voiceFilePath r, music])
     \<and> save_to c = mixedFilePath r)
   \<and> length (filter is_ffmpeg (trace r)) \<le> 1
   \<and> (\<forall>c msg partial. EvFfmpeg c (MixError msg partial) \<in> set (trace r) \<longrightarrow>
         statusCode (res r) = 500
       \<and> body (res r) =
           Json ''The blend was lost in the ether. Failed to weave voice and music into one tapestry.''
       \<and> headers (res r) = Map.empty
       \<and> EvReadStream (mixedFilePath r) \<notin> set (trace r)
       \<and> returned r)" for r :: run
  have "Q (finally_block e (catch_block (try_block e req (init d))))"
  proof (rule try_paths, goal_cases)
    case (7 flds fls vf k p d' msg partial)
    from MUSIC_FILES_Str [OF 7(5)] 7(5) show ?case
      by (auto simp: Q_def path_simps is_ffmpeg_def mix_command_def)
  next
    case (8 flds fls vf k p d' out)
    from MUSIC_FILES_Str [OF 8(5)] 8(5) show ?case
      by (auto simp: Q_def path_simps is_ffmpeg_def mix_command_def)
  next
    case (9 flds fls vf k p d' out n)
    from MUSIC_FILES_Str [OF 9(5)] 9(5) show ?case
      by (auto simp: Q_def path_simps is_ffmpeg_def mix_command_def)
  next
    case (10 flds fls vf k p d' out n)
    from MUSIC_FILES_Str [OF 10(5)] 10(5) show ?case
      by (auto simp: Q_def path_simps is_ffmpeg_def mix_command_def)
  qed (simp_all add: Q_def path_simps is_ffmpeg_def)
  then show ?thesis using True by (simp add: handler_def Q_def)
qed

theorem fixed_mixing_policy_witness:
  "EvFfmpeg (the_cmd failing_env ''/app/public/audio/ambient_background.mp3'')
       (MixError ''Invalid data found when processing input'' None)
     \<in> set (trace (handler failing_env demo_req demo_disk))
   \<and> complexFilter (the_cmd failing_env ''/app/public/audio/ambient_background.mp3'') =
       [''[1:a]volume=0.25[music_vol]'',
        ''[0:a][music_vol]amix=inputs=2:duration=first:dropout_transition=2[aout]'']
   \<and> outputOptions (the_cmd failing_env ''/app/public/audio/ambient_background.mp3'') =
       [''-map [aout]'', ''-c:a libmp3lame'', ''-q:a 2'']
   \<and> statusCode (res (handler failing_env demo_req demo_disk)) = 500
   \<and> body (res (handler failing_env demo_req demo_disk)) =
       Json ''The blend was lost in the ether. Failed to weave voice and music into one tapestry.''
   \<and> returned (handler failing_env demo_req demo_disk)"
proof -
  have invoked: "EvFfmpeg (the_cmd failing_env ''/app/public/audio/ambient_background.mp3'')
       (MixError ''Invalid data found when processing input'' None)
     \<in> set (trace (handler failing_env demo_req demo_disk))"
    by (simp add: handler_defs demo_defs)
  from fixed_mixing_policy [of failing_env demo_req demo_disk] invoked show ?thesis
    by blast
qed

text \<open>
  C3, evaluated where the code departs from it. \<open>MUSIC_FILES\<close> is an object literal, so
  \<open>MUSIC_FILES[musicChoice]\<close> also finds what the literal inherits from
  \<open>Object.prototype\<close>. For the music key \<open>constructor\<close>, which is not one of the known
  keys, the lookup yields a truthy value, the validation at line 86 lets the request
  pass, \<open>fs.access\<close> rejects the non-string path, and the answer is the 500 of the
  missing-track branch instead of 400. This holds in every deployment and on every disk.
\<close>

theorem inherited_key_answered_500:
  "MUSIC_FILES (cwd e) ''constructor'' = Inherited
   \<and> statusCode (res (handler e \<lparr>req_method = ''POST'',
         form = Inr ([''musicChoice'' \<mapsto> [''constructor'']],
                     [''voice_audio'' \<mapsto> [\<lparr>filepath = ''/tmp/upload_1''\<rparr>]])\<rparr> d)) = 500
   \<and> body (res (handler e \<lparr>req_method = ''POST'',
         form = Inr ([''musicChoice'' \<mapsto> [''constructor'']],
                     [''voice_audio'' \<mapsto> [\<lparr>filepath = ''/tmp/upload_1''\<rparr>]])\<rparr> d)) =
       Json ''The chosen melody is lost in the mists. Background music file not found on the server.''"
  by (simp add: handler_def try_block_def finally_block_def catch_block_def MUSIC_FILES_def
      object_prototype_keys_def first_of_def fs_access_def respond_def json_error_def emit_def
      Let_def)



text \<open>
  C5. A deletion attempt never changes the response and never stops the handler from
  returning. When the file is absent the attempt leaves nothing but its own entry in
  the trace: no log line, no change on disk. After a first deletion that succeeded, the
  file is absent and a second attempt on the same path is of that silent kind. Any
  failure leaves the disk as it was and adds at most one warning to the log, and a
  warning only when the error code is not \<open>ENOENT\<close>. The response of a whole run does
  not depend on what the deletions run into.
\<close>

theorem deletion_is_silent:
  "res (unlink_quietly e l p s) = res s
   \<and> returned (unlink_quietly e l p s) = returned s
   \<and> (disk s p = None \<longrightarrow> unlink_quietly e l p s = emit (EvUnlink p) s)
   \<and> (fst (fs_unlink e (length (trace s)) p (disk s)) = None \<longrightarrow>
        disk (unlink_quietly e l p s) p = None
      \<and> unlink_quietly e l' p (unlink_quietly e l p s) = emit (EvUnlink p) (unlink_quietly e l p s))
   \<and> (\<forall>err. fst (fs_unlink e (length (trace s)) p (disk s)) = Some err \<longrightarrow>
        disk (unlink_quietly e l p s) = disk s
      \<and> trace (unlink_quietly e l p s) =
          trace s @ EvUnlink p # (if err_code err \<noteq> ''ENOENT'' then [EvWarn (l @ err_message err)] else []))
   \<and> res (handler (e\<lparr>unlink_error := u\<rparr>) req d) = res (handler e req d)"
proof -
  have "res (handler (e\<lparr>unlink_error := u\<rparr>) req d) = res (handler e req d)"
    by (rule response_ignores_unlink)
  then show ?thesis
    by (auto simp: unlink_quietly_def fs_unlink_def emit_def enoent_def split: option.splits)
qed

theorem deletion_is_silent_witness:
  "disk (init demo_disk) ''/app/tmp/gone.mp3'' = None
   \<and> unlink_quietly demo_env ''Failed: '' ''/app/tmp/gone.mp3'' (init demo_disk) =
       emit (EvUnlink ''/app/tmp/gone.mp3'') (init demo_disk)
   \<and> fst (fs_unlink demo_env (length (trace (init demo_disk))) ''/tmp/upload_1'' (disk (init demo_disk))) = None
   \<and> unlink_quietly demo_env ''Again: '' ''/tmp/upload_1''
         (unlink_quietly demo_env ''Failed: '' ''/tmp/upload_1'' (init demo_disk)) =
       emit (EvUnlink ''/tmp/upload_1'') (unlink_quietly demo_env ''Failed: '' ''/tmp/upload_1'' (init demo_disk))
   \<and> fst (fs_unlink busy_env (length (trace (init demo_disk))) ''/tmp/upload_1'' (disk (init demo_disk))) =
       Some (JsError ''EBUSY'' ''resource busy or locked'')
   \<and> trace (unlink_quietly busy_env ''Failed: '' ''/tmp/upload_1'' (init demo_disk)) =
       [EvUnlink ''/tmp/upload_1'', EvWarn ''Failed: resource busy or locked'']
   \<and> res (unlink_quietly busy_env ''Failed: '' ''/tmp/upload_1'' (init demo_disk)) = res0"
proof -
  have absent: "disk (init demo_disk) ''/app/tmp/gone.mp3'' = None"
    by (simp add: init_def demo_disk_def)
  have deleted: "fst (fs_unlink demo_env (length (trace (init demo_disk))) ''/tmp/upload_1''
                    (disk (init demo_disk))) = None"
    by (simp add: fs_unlink_def init_def demo_defs)
  have busy: "fst (fs_unlink busy_env (length (trace (init demo_disk))) ''/tmp/upload_1''
                    (disk (init demo_disk))) = Some (JsError ''EBUSY'' ''resource busy or locked'')"
    by (simp add: fs_unlink_def init_def demo_defs)
  from deletion_is_silent [of demo_env "''Failed: ''" "''/app/tmp/gone.mp3''" "init demo_disk"]
    deletion_is_silent [of demo_env "''Failed: ''" "''/tmp/upload_1''" "init demo_disk" "''Again: ''"]
    deletion_is_silent [of busy_env "''Failed: ''" "''/tmp/upload_1''" "init demo_disk"]
    absent deleted busy
  show ?thesis
    by (simp add: init_def)
qed

text \<open>
  C6, as the code has it. A request whose narration part is absent is answered with
  400 and the message that a voice audio file is required; the response is finished,
  no scratch path is assigned, the disk is untouched, and the only calls made are the
  two deletion attempts of the final clean-up, on the empty path. The handler makes no
  check of its own that a narration part which is present is non-empty.
\<close>

theorem absent_narration_rejected:
  assumes "req_method req = ''POST''" and "form req = Inr (flds, fls)"
    and "first_of (fls ''voice_audio'') = None"
  shows "statusCode (res (handler e req d)) = 400
       \<and> body (res (handler e req d)) = Json ''Voice audio file is required for mixing.''
       \<and> finished (res (handler e req d))
       \<and> trace (handler e req d) = [EvUnlink [], EvUnlink []]
       \<and> disk (handler e req d) = d
       \<and> voiceFilePath (handler e req d) = [] \<and> mixedFilePath (handler e req d) = []
       \<and> returned (handler e req d)"
  using assms
  by (simp add: handler_def try_block_def finally_block_def catch_block_def respond_def
      json_error_def init_def unlink_quietly_def fs_unlink_def enoent_def)

theorem absent_narration_rejected_witness:
  "req_method (demo_req\<lparr>form := Inr ([''musicChoice'' \<mapsto> [''ambient'']], Map.empty)\<rparr>) = ''POST''
   \<and> first_of ((Map.empty :: string \<rightharpoonup> upload list) ''voice_audio'') = None
   \<and> statusCode (res (handler demo_env
        (demo_req\<lparr>form := Inr ([''musicChoice'' \<mapsto> [''ambient'']], Map.empty)\<rparr>) demo_disk)) = 400
   \<and> trace (handler demo_env
        (demo_req\<lparr>form := Inr ([''musicChoice'' \<mapsto> [''ambient'']], Map.empty)\<rparr>) demo_disk)
       = [EvUnlink [], EvUnlink []]
   \<and> disk (handler demo_env
        (demo_req\<lparr>form := Inr ([''musicChoice'' \<mapsto> [''ambient'']], Map.empty)\<rparr>) demo_disk) = demo_disk"
proof -
  have post: "req_method (demo_req\<lparr>form := Inr ([''musicChoice'' \<mapsto> [''ambient'']], Map.empty)\<rparr>) = ''POST''"
    by (simp add: demo_req_def)
  have parsed: "form (demo_req\<lparr>form := Inr ([''musicChoice'' \<mapsto> [''ambient'']], Map.empty)\<rparr>)
      = Inr ([''musicChoice'' \<mapsto> [''ambient'']], Map.empty)"
    by simp
  have none: "first_of ((Map.empty :: string \<rightharpoonup> upload list) ''voice_audio'') = None"
    by (simp add: first_of_def)
  from absent_narration_rejected [OF post parsed none, of demo_env demo_disk] post none
  show ?thesis by simp
qed

text \<open>C6 as the specification states it fails for a narration part that is present and
  empty. When the parser hands the empty upload over, the handler stages it and invokes
  the media processor: the answer is 500 when the processor fails on it and 200 when
  it does not. When the parser refuses the empty part, the answer to its error is 500.
  None of these is a 400.\<close>

theorem empty_narration_not_rejected:
  "(demo_disk(''/tmp/upload_1'' \<mapsto> [])) ''/tmp/upload_1'' = Some []
   \<and> EvFfmpeg (the_cmd failing_env ''/app/public/audio/ambient_background.mp3'')
       (MixError ''Invalid data found when processing input'' None)
       \<in> set (trace (handler failing_env demo_req (demo_disk(''/tmp/upload_1'' \<mapsto> []))))
   \<and> statusCode (res (handler failing_env demo_req (demo_disk(''/tmp/upload_1'' \<mapsto> [])))) = 500
   \<and> statusCode (res (handler demo_env demo_req (demo_disk(''/tmp/upload_1'' \<mapsto> [])))) = 200
   \<and> statusCode (res (handler demo_env
        (demo_req\<lparr>form := Inl (JsError ''1010''
            ''options.allowEmptyFiles is false, file size should be greater than 0'')\<rparr>)
        demo_disk)) = 500"
  by (simp add: handler_defs demo_defs)

section \<open>The browser application: properties\<close>



text \<open>
  C8, evaluated where the code departs from it. \<open>lineTimerRef\<close> holds one timer id, and
  each \<open>setTimeout\<close> of \<open>playAudio\<close> overwrites it, so \<open>clearLineTimers\<close> cancels the
  last timer only. Two lines, ten seconds of audio: playback starts at 0 and is stopped
  at 1 s; the highlight of line 1, due at 5 s, is still pending after the stop. The old
  source ends, playback starts again at 2 s, and at 5 s the timer of the first playback
  sets the highlighted line to 1, two seconds before the second playback reaches line
  1. The same happens when the track is switched at 1 s and the mix plays from then on.
\<close>

theorem stale_highlight_after_restart:
  "map tid (timers (stopAudio (advance 1000
       (playAudio two_lines ten_seconds (app0\<lparr>audioContext := True\<rparr>))))) = [1]
   \<and> map due (timers (playAudio two_lines ten_seconds (advance 2000 (onended (stopAudio (advance 1000
       (playAudio two_lines ten_seconds (app0\<lparr>audioContext := True\<rparr>))))))))
       = [5000, 2000, 7000, 12000]
   \<and> currentLineIndex (advance 5000 (playAudio two_lines ten_seconds (advance 2000 (onended (stopAudio
       (advance 1000 (playAudio two_lines ten_seconds (app0\<lparr>audioContext := True\<rparr>)))))))) = 1
   \<and> map due (timers (handleMusicChange mixing_works ''ambient''
       (advance 1000 (playAudio two_lines ten_seconds narrated)))) = [5000, 1000, 6000, 11000]
   \<and> currentLineIndex (advance 5000 (handleMusicChange mixing_works ''ambient''
       (advance 1000 (playAudio two_lines ten_seconds narrated)))) = 1"
  by (simp add: client_defs music_defs)

text \<open>
  C9. When the \<open>try\<close> block of \<open>handleMusicChange\<close> throws, whatever the cause (a
  network error, a non-OK response of the mixing endpoint and a decoding failure all
  make it throw, see \<open>mix_failure_throws\<close>), the handler ends with \<open>musicChoice\<close> reset
  to \<open>none\<close>, with mixing no longer in progress and with the mixed-audio flag off;
  and when both speech-only buffers exist, the playback and download buffers are the
  speech-only audio again and the mixed buffers are cleared.
\<close>

theorem failed_mix_restores_speech:
  assumes "generatedPoem s \<noteq> []" and "audioContext s" and "musicChoice s \<noteq> newMusicChoice"
    and "isl (try_music env s newMusicChoice (begin_change newMusicChoice s))"
  shows "musicChoice (handleMusicChange env newMusicChoice s) = ''none''
       \<and> \<not> isMixing (handleMusicChange env newMusicChoice s)
       \<and> \<not> isMixedAudioPlaying (handleMusicChange env newMusicChoice s)
       \<and> (\<forall>decoded raw. speechOnlyDecodedBuffer s = Some decoded \<and> speechOnlyRawMp3Buffer s = Some raw \<longrightarrow>
             currentPlaybackAudioBuffer (handleMusicChange env newMusicChoice s) = Some decoded
           \<and> currentDownloadMp3Buffer (handleMusicChange env newMusicChoice s) = Some raw
           \<and> speechOnlyDecodedBuffer (handleMusicChange env newMusicChoice s) = Some decoded
           \<and> speechOnlyRawMp3Buffer (handleMusicChange env newMusicChoice s) = Some raw
           \<and> mixedDecodedBuffer (handleMusicChange env newMusicChoice s) = None
           \<and> mixedRawMp3Buffer (handleMusicChange env newMusicChoice s) = None)"
proof -
  from assms(4) obtain msg t where thrown:
    "try_music env s newMusicChoice (begin_change newMusicChoice s) = Inl (msg, t)"
    by (cases "try_music env s newMusicChoice (begin_change newMusicChoice s)") auto
  have quiet: "\<not> isMixedAudioPlaying t"
    using thrown
    by (auto simp: try_music_def begin_change_def playAudio_null_def setAudioAndSyncData_def
        generateSpeech_def Let_def split: if_splits option.splits sum.splits mix_reply.splits)
  have "handleMusicChange env newMusicChoice s =
        (catch_music s msg t)\<lparr>isMixing := False, loadingMessage := []\<rparr>"
    using assms(1-3) by (simp add: handleMusicChange_def thrown)
  then show ?thesis
    using quiet
    by (auto simp: catch_music_def setAudioAndSyncData_def Let_def split: option.splits)
qed

theorem failed_mix_restores_speech_witness:
  "generatedPoem narrated \<noteq> [] \<and> audioContext narrated \<and> musicChoice narrated \<noteq> ''ambient''
   \<and> isl (try_music mixing_down narrated ''ambient'' (begin_change ''ambient'' narrated))
   \<and> musicChoice (handleMusicChange mixing_down ''ambient'' narrated) = ''none''
   \<and> currentPlaybackAudioBuffer (handleMusicChange mixing_down ''ambient'' narrated) = Some ten_seconds
   \<and> currentDownloadMp3Buffer (handleMusicChange mixing_down ''ambient'' narrated) = Some [255, 251]
   \<and> mixedDecodedBuffer (handleMusicChange mixing_down ''ambient'' narrated) = None"
proof -
  have poem: "generatedPoem narrated \<noteq> []" and ctx: "audioContext narrated"
    and other: "musicChoice narrated \<noteq> ''ambient''"
    by (simp_all add: narrated_def app0_def)
  have throws: "isl (try_music mixing_down narrated ''ambient'' (begin_change ''ambient'' narrated))"
    by (simp add: try_music_def narrated_def mixing_down_def)
  have speech: "speechOnlyDecodedBuffer narrated = Some ten_seconds"
    "speechOnlyRawMp3Buffer narrated = Some [255, 251]"
    by (simp_all add: narrated_def)
  from failed_mix_restores_speech [OF poem ctx other throws] poem ctx other throws speech
  show ?thesis by simp
qed

text \<open>
  C10. Every line that \<open>setAudioAndSyncData\<close> stores as poem lines comes from splitting
  the poem at newlines and keeping the lines that are not empty after trimming, so
  every stored line has at least one character. Hence, when the stored list is not
  empty, the total character count is at least 1, the division is by a non-zero number,
  and every allotted duration is a finite number that is not negative.
\<close>

theorem poem_lines_give_finite_shares:
  "(\<forall>line \<in> set (poem_lines_of poem). 1 \<le> length line)
   \<and> poemLines (setAudioAndSyncData poem decoded raw kind s) = poem_lines_of poem
   \<and> (poem_lines_of poem \<noteq> [] \<longrightarrow>
        1 \<le> totalChars (poem_lines_of poem)
      \<and> (\<forall>x \<in> set (lineDurations (duration buffer) (poem_lines_of poem)). \<exists>d. x = Num d \<and> 0 \<le> d))"
proof -
  have ne: "\<forall>line \<in> set (poem_lines_of poem). line \<noteq> []"
    by (simp add: poem_lines_nonempty)
  then have len: "\<forall>line \<in> set (poem_lines_of poem). 1 \<le> length line"
    by (auto simp: Suc_le_eq)
  have set: "poemLines (setAudioAndSyncData poem decoded raw kind s) = poem_lines_of poem"
    by (simp add: setAudioAndSyncData_def Let_def split: audio_kind.split)
  have "1 \<le> totalChars (poem_lines_of poem)
      \<and> (\<forall>x \<in> set (lineDurations (duration buffer) (poem_lines_of poem)). \<exists>d. x = Num d \<and> 0 \<le> d)"
    if "poem_lines_of poem \<noteq> []"
  proof -
    have pos: "0 < totalChars (poem_lines_of poem)"
      using totalChars_pos [OF that ne] .
    show ?thesis
      using pos by (auto simp: lineDurations_finite duration_nonneg)
  qed
  with len set show ?thesis by blast
qed

theorem poem_lines_give_finite_shares_witness:
  "poem_lines_of [0x61, 0x62, 0xA, 0x20, 0xA, 0x63, 0x64] = two_lines
   \<and> poem_lines_of [0x61, 0x62, 0xA, 0x20, 0xA, 0x63, 0x64] \<noteq> []
   \<and> 1 \<le> totalChars (poem_lines_of [0x61, 0x62, 0xA, 0x20, 0xA, 0x63, 0x64])
   \<and> lineDurations (duration ten_seconds) (poem_lines_of [0x61, 0x62, 0xA, 0x20, 0xA, 0x63, 0x64])
       = [Num 5, Num 5]"
proof -
  have built: "poem_lines_of [0x61, 0x62, 0xA, 0x20, 0xA, 0x63, 0x64] = two_lines"
    by (simp add: poem_lines_of_def trim_def is_space_def two_lines_def)
  have some: "poem_lines_of [0x61, 0x62, 0xA, 0x20, 0xA, 0x63, 0x64] \<noteq> []"
    by (simp add: built two_lines_def)
  from poem_lines_give_finite_shares [of "[0x61, 0x62, 0xA, 0x20, 0xA, 0x63, 0x64]" _ _ _ _ ten_seconds]
    built some
  show ?thesis
    by (simp add: client_defs)
qed


end
